theory Spec2Isabelle
  imports Main "HOL-Library.Word"
begin

section \<open>The record model\<close>

text \<open>
  The Go file \<^verbatim>\<open>upup/pkg/fi/secrets/clientset_secretstore.go\<close> implements a secret
  store on top of Keyset objects kept by an API server. The structs it reads and writes
  are modelled as records, with the fields the file touches.
\<close>

type_synonym bytes = "8 word list"

text \<open>
  Modelled from the spec: the declaration of \<^verbatim>\<open>kops.KeysetType\<close> is not part of the
  file; the spec calls it a type discriminator that tells plain-secret records from
  keypair/cert records. \<open>KeysetTypeOther\<close> stands for every other value, the zero value
  of a fresh \<^verbatim>\<open>kops.Keyset{}\<close> included.
\<close>

datatype KeysetType = SecretTypeSecret | SecretTypeKeypair | KeysetTypeOther string

record kops_KeysetItem =
  Id :: string
  PrivateMaterial :: bytes

record kops_KeysetSpec =
  Type :: KeysetType
  Keys :: "kops_KeysetItem list"

record kops_Keyset =
  Name :: string
  Spec :: kops_KeysetSpec

record fi_Secret =
  Data :: bytes

record fi_KeystoreItem =
  item_Name :: string
  item_Id :: string

text \<open>The zero value \<^verbatim>\<open>&kops.Keyset{}\<close>.\<close>

definition zero_Keyset :: kops_Keyset where
  "zero_Keyset = \<lparr>Name = [], Spec = \<lparr>Type = KeysetTypeOther [], Keys = []\<rparr>\<rparr>"

section \<open>Errors\<close>

text \<open>
  Go's \<^verbatim>\<open>error\<close> values. An error of the API machinery carries a status reason, which
  \<^verbatim>\<open>errors.IsNotFound\<close> and \<^verbatim>\<open>errors.IsAlreadyExists\<close> read; the errors the file
  builds with \<^verbatim>\<open>fmt.Errorf\<close> are plain errors that keep what was formatted into them.
\<close>

datatype StatusReason =
  StatusReasonNotFound | StatusReasonAlreadyExists | StatusReasonUnknown string

datatype error =
  StatusError StatusReason
| PlainError string
| Errorf_reading_keyset string error
| Errorf_listing_keysets error
| Errorf_Secret_not_found string

fun IsNotFound :: "error \<Rightarrow> bool" where
  "IsNotFound (StatusError r) = (r = StatusReasonNotFound)"
| "IsNotFound _ = False"

fun IsAlreadyExists :: "error \<Rightarrow> bool" where
  "IsAlreadyExists (StatusError r) = (r = StatusReasonAlreadyExists)"
| "IsAlreadyExists _ = False"

text \<open>
  A call of the file returns its Go results, or ends the process in \<^verbatim>\<open>glog.Fatalf\<close>,
  or panics on a nil pointer.
\<close>

datatype 'a outcome = Return 'a | Fatalf string error | Panic

section \<open>The collaborators\<close>

text \<open>
  The clientset is an interface: \<^verbatim>\<open>c.clientset.Keysets(c.namespace)\<close> gives the
  operations on the Keysets of one namespace. Each call may change the world \<open>'s\<close>
  (the API server, shared with other writers) and returns a result or an error; the
  file reads the result only when the error is nil, hence the sum type.
  \<open>Keysets_DeleteItem\<close> is the item-deletion primitive of the store.
\<close>

record 's KopsInterface =
  Keysets_Get :: "string \<Rightarrow> string \<Rightarrow> 's \<Rightarrow> (error + kops_Keyset) \<times> 's"
  Keysets_List :: "string \<Rightarrow> 's \<Rightarrow> (error + kops_Keyset list) \<times> 's"
  Keysets_Create :: "string \<Rightarrow> kops_Keyset \<Rightarrow> 's \<Rightarrow> (error + kops_Keyset) \<times> 's"
  Keysets_DeleteItem ::
    "string \<Rightarrow> string \<Rightarrow> KeysetType \<Rightarrow> string \<Rightarrow> 's \<Rightarrow> error option \<times> 's"

record 's ClientsetSecretStore =
  namespace :: string
  clientset :: "'s KopsInterface"

text \<open>
  The functions of other packages that the file calls and whose bodies are not part of
  it: the clock \<^verbatim>\<open>time.Now().UnixNano()\<close>, \<^verbatim>\<open>pki.BuildPKISerial\<close> (which may draw
  randomness, so it threads the world) and \<^verbatim>\<open>fi.FindPrimary\<close>. They are parameters.
\<close>

record 's packages =
  time_Now_UnixNano :: "'s \<Rightarrow> 64 word \<times> 's"
  pki_BuildPKISerial :: "64 word \<Rightarrow> 's \<Rightarrow> int \<times> 's"
  fi_FindPrimary :: "kops_Keyset \<Rightarrow> kops_KeysetItem option"

text \<open>
  The method \<^verbatim>\<open>String\<close> of \<^verbatim>\<open>big.Int\<close>: the decimal digits, with a minus sign
  when negative.
\<close>

fun nat_String :: "nat \<Rightarrow> string" where
  "nat_String n =
     (if n < 10 then [''0123456789'' ! n]
      else nat_String (n div 10) @ [''0123456789'' ! (n mod 10)])"

definition big_Int_String :: "int \<Rightarrow> string" where
  "big_Int_String i =
     (if i < 0 then CHR ''-'' # nat_String (nat (- i)) else nat_String (nat i))"

text \<open>\<^verbatim>\<open>strings.HasPrefix\<close> and \<^verbatim>\<open>strings.TrimPrefix\<close>.\<close>

definition HasPrefix :: "string \<Rightarrow> string \<Rightarrow> bool" where
  "HasPrefix s p = (length p \<le> length s \<and> take (length p) s = p)"

definition TrimPrefix :: "string \<Rightarrow> string \<Rightarrow> string" where
  "TrimPrefix s p = (if HasPrefix s p then drop (length p) s else s)"

section \<open>The secret store\<close>

definition NamePrefix :: string where
  "NamePrefix = ''token-''"

definition NewClientsetSecretStore ::
  "'s KopsInterface \<Rightarrow> string \<Rightarrow> 's ClientsetSecretStore" where
  "NewClientsetSecretStore cs ns = \<lparr>namespace = ns, clientset = cs\<rparr>"

definition parseSecret ::
  "'s packages \<Rightarrow> kops_Keyset \<Rightarrow> fi_Secret option \<times> error option" where
  "parseSecret P keyset =
     (case fi_FindPrimary P keyset of
        None \<Rightarrow> (None, None)
      | Some primary \<Rightarrow>
          (let s = \<lparr>Data = []\<rparr>;
               s = s\<lparr>Data := PrivateMaterial primary\<rparr>
           in (Some s, None)))"

definition loadSecret ::
  "'s packages \<Rightarrow> 's ClientsetSecretStore \<Rightarrow> string \<Rightarrow> 's \<Rightarrow>
     (fi_Secret option \<times> error option) \<times> 's" where
  "loadSecret P c name0 w =
     (let name = NamePrefix @ name0 in
      case Keysets_Get (clientset c) (namespace c) name w of
        (Inl err, w') \<Rightarrow>
          if IsNotFound err then ((None, None), w')
          else ((None, Some (Errorf_reading_keyset name err)), w')
      | (Inr keyset, w') \<Rightarrow> (parseSecret P keyset, w'))"

definition FindSecret ::
  "'s packages \<Rightarrow> 's ClientsetSecretStore \<Rightarrow> string \<Rightarrow> 's \<Rightarrow>
     (fi_Secret option \<times> error option) \<times> 's" where
  "FindSecret P c name w =
     (case loadSecret P c name w of
        ((s, Some err), w') \<Rightarrow> ((None, Some err), w')
      | ((s, None), w') \<Rightarrow> ((s, None), w'))"

text \<open>The loop of \<^verbatim>\<open>ListSecrets\<close> over \<^verbatim>\<open>list.Items\<close>, appending to \<^verbatim>\<open>names\<close>.\<close>

fun ListSecrets_loop :: "kops_Keyset list \<Rightarrow> string list \<Rightarrow> string list" where
  "ListSecrets_loop [] names = names"
| "ListSecrets_loop (keyset # items) names =
     ListSecrets_loop items
       (if Type (Spec keyset) = SecretTypeSecret
        then names @ [TrimPrefix (Name keyset) NamePrefix]
        else names)"

definition ListSecrets ::
  "'s ClientsetSecretStore \<Rightarrow> 's \<Rightarrow> (string list \<times> error option) \<times> 's" where
  "ListSecrets c w =
     (case Keysets_List (clientset c) (namespace c) w of
        (Inl err, w') \<Rightarrow> (([], Some (Errorf_listing_keysets err)), w')
      | (Inr items, w') \<Rightarrow> ((ListSecrets_loop items [], None), w'))"

definition Secret ::
  "'s packages \<Rightarrow> 's ClientsetSecretStore \<Rightarrow> string \<Rightarrow> 's \<Rightarrow>
     (fi_Secret option \<times> error option) \<times> 's" where
  "Secret P c name w =
     (case FindSecret P c name w of
        ((s, Some err), w') \<Rightarrow> ((None, Some err), w')
      | ((None, None), w') \<Rightarrow> ((None, Some (Errorf_Secret_not_found name)), w')
      | ((Some s, None), w') \<Rightarrow> ((Some s, None), w'))"

text \<open>
  Modelled from the spec: \<^verbatim>\<open>fi.DeleteKeysetItem\<close> is not part of the file; the spec
  describes it as the backing store's item-deletion primitive
  \<^verbatim>\<open>DeleteItem(namespace, recordName, itemType, itemId)\<close>, so it hands its arguments
  to that primitive of the client.
\<close>

definition DeleteKeysetItem ::
  "'s KopsInterface \<Rightarrow> string \<Rightarrow> string \<Rightarrow> KeysetType \<Rightarrow> string \<Rightarrow> 's \<Rightarrow>
     error option \<times> 's" where
  "DeleteKeysetItem cs ns name keysetType itemId w =
     Keysets_DeleteItem cs ns name keysetType itemId w"

definition DeleteSecret ::
  "'s ClientsetSecretStore \<Rightarrow> fi_KeystoreItem option \<Rightarrow> 's \<Rightarrow>
     error option outcome \<times> 's" where
  "DeleteSecret c item w =
     (case item of
        None \<Rightarrow> (Panic, w)
      | Some it \<Rightarrow>
          (case DeleteKeysetItem (clientset c) (namespace c)
                  (item_Name it) SecretTypeKeypair (item_Id it) w of
             (r, w') \<Rightarrow> (Return r, w')))"

definition createSecret ::
  "'s packages \<Rightarrow> 's ClientsetSecretStore \<Rightarrow> fi_Secret option \<Rightarrow> string \<Rightarrow> 's \<Rightarrow>
     (error + kops_Keyset) outcome \<times> 's" where
  "createSecret P c s name w =
     (let keyset = zero_Keyset;
          keyset = keyset\<lparr>Name := NamePrefix @ name\<rparr>;
          keyset = keyset\<lparr>Spec := (Spec keyset)\<lparr>Type := SecretTypeSecret\<rparr>\<rparr>;
          (t, w1) = time_Now_UnixNano P w;
          (serial, w2) = pki_BuildPKISerial P t w1
      in case s of
           None \<Rightarrow> (Panic, w2)
         | Some sv \<Rightarrow>
             (let keyset = keyset\<lparr>Spec := (Spec keyset)\<lparr>Keys :=
                    Keys (Spec keyset) @
                      [\<lparr>Id = big_Int_String serial, PrivateMaterial = Data sv\<rparr>]\<rparr>\<rparr>
              in case Keysets_Create (clientset c) (namespace c) keyset w2 of
                   (r, w3) \<Rightarrow> (Return r, w3)))"

text \<open>
  The statements of \<^verbatim>\<open>GetOrCreateSecret\<close> after its loop: the re-read, whose failure
  ends the process.
\<close>

definition GetOrCreateSecret_reread ::
  "'s packages \<Rightarrow> 's ClientsetSecretStore \<Rightarrow> string \<Rightarrow> 's \<Rightarrow>
     (fi_Secret option \<times> bool \<times> error option) outcome \<times> 's" where
  "GetOrCreateSecret_reread P c name w =
     (case loadSecret P c name w of
        ((s, Some err), w') \<Rightarrow> (Fatalf name err, w')
      | ((s, None), w') \<Rightarrow> (Return (s, True, None), w'))"

text \<open>The loop \<^verbatim>\<open>for i := 0; i < 2; i++\<close>, from the iteration \<open>i\<close> on.\<close>

function GetOrCreateSecret_loop ::
  "'s packages \<Rightarrow> 's ClientsetSecretStore \<Rightarrow> string \<Rightarrow> fi_Secret option \<Rightarrow> nat \<Rightarrow> 's \<Rightarrow>
     (fi_Secret option \<times> bool \<times> error option) outcome \<times> 's" where
  "GetOrCreateSecret_loop P c name secret i w =
     (if i < 2 then
        (case FindSecret P c name w of
           ((s, Some err), w1) \<Rightarrow> (Return (None, False, Some err), w1)
         | ((Some s, None), w1) \<Rightarrow> (Return (Some s, False, None), w1)
         | ((None, None), w1) \<Rightarrow>
             (case createSecret P c secret name w1 of
                (Panic, w2) \<Rightarrow> (Panic, w2)
              | (Fatalf m e, w2) \<Rightarrow> (Fatalf m e, w2)
              | (Return (Inl err), w2) \<Rightarrow>
                  if IsAlreadyExists err \<and> i = 0
                  then GetOrCreateSecret_loop P c name secret (i + 1) w2
                  else (Return (None, False, Some err), w2)
              | (Return (Inr k), w2) \<Rightarrow> GetOrCreateSecret_reread P c name w2))
      else GetOrCreateSecret_reread P c name w)"
  by pat_completeness auto
termination
  by (relation "measure (\<lambda>(P, c, name, secret, i, w). 2 - i)") auto

definition GetOrCreateSecret ::
  "'s packages \<Rightarrow> 's ClientsetSecretStore \<Rightarrow> string \<Rightarrow> fi_Secret option \<Rightarrow> 's \<Rightarrow>
     (fi_Secret option \<times> bool \<times> error option) outcome \<times> 's" where
  "GetOrCreateSecret P c name secret w = GetOrCreateSecret_loop P c name secret 0 w"

section \<open>Recording the calls made to the store\<close>

text \<open>
  To speak about which store calls an operation makes, a client is wrapped so that
  every call is appended to a log kept beside the world. The wrapped client answers
  as the client it wraps.
\<close>

datatype call =
  CallGet string string
| CallList string
| CallCreate string kops_Keyset
| CallDeleteItem string string KeysetType string

fun is_Create :: "call \<Rightarrow> bool" where
  "is_Create (CallCreate ns k) = True"
| "is_Create _ = False"

definition creates :: "call list \<Rightarrow> nat" where
  "creates l = length (filter is_Create l)"

definition logged_client :: "'s KopsInterface \<Rightarrow> ('s \<times> call list) KopsInterface" where
  "logged_client cs =
     \<lparr>Keysets_Get = (\<lambda>ns n (w, l).
        case Keysets_Get cs ns n w of (r, w') \<Rightarrow> (r, (w', l @ [CallGet ns n]))),
      Keysets_List = (\<lambda>ns (w, l).
        case Keysets_List cs ns w of (r, w') \<Rightarrow> (r, (w', l @ [CallList ns]))),
      Keysets_Create = (\<lambda>ns k (w, l).
        case Keysets_Create cs ns k w of (r, w') \<Rightarrow> (r, (w', l @ [CallCreate ns k]))),
      Keysets_DeleteItem = (\<lambda>ns n ty i (w, l).
        case Keysets_DeleteItem cs ns n ty i w of
          (r, w') \<Rightarrow> (r, (w', l @ [CallDeleteItem ns n ty i])))\<rparr>"

definition logged :: "'s ClientsetSecretStore \<Rightarrow> ('s \<times> call list) ClientsetSecretStore" where
  "logged c = \<lparr>namespace = namespace c, clientset = logged_client (clientset c)\<rparr>"

definition beside_log :: "'s packages \<Rightarrow> ('s \<times> call list) packages" where
  "beside_log P =
     \<lparr>time_Now_UnixNano = (\<lambda>(w, l).
        case time_Now_UnixNano P w of (t, w') \<Rightarrow> (t, (w', l))),
      pki_BuildPKISerial = (\<lambda>t (w, l).
        case pki_BuildPKISerial P t w of (n, w') \<Rightarrow> (n, (w', l))),
      fi_FindPrimary = fi_FindPrimary P\<rparr>"

section \<open>A record store shared with other writers\<close>

text \<open>
  Modelled from the spec: the backing record store is not part of the file. The spec
  asks of it \<^verbatim>\<open>Get\<close>, \<^verbatim>\<open>List\<close>, a \<^verbatim>\<open>Create\<close> that fails rather than overwrites when
  the name exists, and \<^verbatim>\<open>DeleteItem\<close>, which removes the entry identified by record
  name and entry ID and fails if the item does not exist (the spec does not say what
  the item type is used for, and the model does not consult it). The store keeps
  (namespace, record) pairs in the order of creation. Other writers are a schedule:
  before each call of this client the next batch of their operations is applied.
\<close>

datatype other_op =
  OtherCreate string kops_Keyset
| OtherUpdate string kops_Keyset
| OtherDelete string string

record world =
  records :: "(string \<times> kops_Keyset) list"
  clock :: "64 word"
  others :: "other_op list list"

definition is_record :: "string \<Rightarrow> string \<Rightarrow> string \<times> kops_Keyset \<Rightarrow> bool" where
  "is_record ns n r = (fst r = ns \<and> Name (snd r) = n)"

definition lookup :: "(string \<times> kops_Keyset) list \<Rightarrow> string \<Rightarrow> string \<Rightarrow> kops_Keyset option" where
  "lookup rs ns n = map_option snd (find (is_record ns n) rs)"

definition store_create ::
  "(string \<times> kops_Keyset) list \<Rightarrow> string \<Rightarrow> kops_Keyset \<Rightarrow>
     (error + kops_Keyset) \<times> (string \<times> kops_Keyset) list" where
  "store_create rs ns k =
     (case lookup rs ns (Name k) of
        Some k' \<Rightarrow> (Inl (StatusError StatusReasonAlreadyExists), rs)
      | None \<Rightarrow> (Inr k, rs @ [(ns, k)]))"

definition store_update ::
  "(string \<times> kops_Keyset) list \<Rightarrow> string \<Rightarrow> kops_Keyset \<Rightarrow> (string \<times> kops_Keyset) list" where
  "store_update rs ns k = map (\<lambda>r. if is_record ns (Name k) r then (ns, k) else r) rs"

definition store_delete ::
  "(string \<times> kops_Keyset) list \<Rightarrow> string \<Rightarrow> string \<Rightarrow> (string \<times> kops_Keyset) list" where
  "store_delete rs ns n = filter (\<lambda>r. \<not> is_record ns n r) rs"

fun apply_other :: "other_op \<Rightarrow> (string \<times> kops_Keyset) list \<Rightarrow> (string \<times> kops_Keyset) list" where
  "apply_other (OtherCreate ns k) rs = snd (store_create rs ns k)"
| "apply_other (OtherUpdate ns k) rs = store_update rs ns k"
| "apply_other (OtherDelete ns n) rs = store_delete rs ns n"

definition others_step :: "world \<Rightarrow> world" where
  "others_step w =
     (case others w of
        [] \<Rightarrow> w
      | ops # rest \<Rightarrow> w\<lparr>records := fold apply_other ops (records w), others := rest\<rparr>)"

definition world_Get :: "string \<Rightarrow> string \<Rightarrow> world \<Rightarrow> (error + kops_Keyset) \<times> world" where
  "world_Get ns n w =
     (let w' = others_step w in
      case lookup (records w') ns n of
        None \<Rightarrow> (Inl (StatusError StatusReasonNotFound), w')
      | Some k \<Rightarrow> (Inr k, w'))"

definition world_List :: "string \<Rightarrow> world \<Rightarrow> (error + kops_Keyset list) \<times> world" where
  "world_List ns w =
     (let w' = others_step w in
      (Inr (map snd (filter (\<lambda>r. fst r = ns) (records w'))), w'))"

definition world_Create ::
  "string \<Rightarrow> kops_Keyset \<Rightarrow> world \<Rightarrow> (error + kops_Keyset) \<times> world" where
  "world_Create ns k w =
     (let w' = others_step w in
      case store_create (records w') ns k of
        (r, rs) \<Rightarrow> (r, w'\<lparr>records := rs\<rparr>))"

definition world_DeleteItem ::
  "string \<Rightarrow> string \<Rightarrow> KeysetType \<Rightarrow> string \<Rightarrow> world \<Rightarrow> error option \<times> world" where
  "world_DeleteItem ns n ty i w =
     (let w' = others_step w in
      case lookup (records w') ns n of
        None \<Rightarrow> (Some (StatusError StatusReasonNotFound), w')
      | Some k \<Rightarrow>
          if List.member (map Id (Keys (Spec k))) i
          then (None, w'\<lparr>records := store_update (records w') ns
                  (k\<lparr>Spec := (Spec k)\<lparr>Keys :=
                      filter (\<lambda>e. Id e \<noteq> i) (Keys (Spec k))\<rparr>\<rparr>)\<rparr>)
          else (Some (PlainError ''item not found''), w'))"

definition world_client :: "world KopsInterface" where
  "world_client =
     \<lparr>Keysets_Get = world_Get, Keysets_List = world_List,
      Keysets_Create = world_Create, Keysets_DeleteItem = world_DeleteItem\<rparr>"

definition world_store :: "string \<Rightarrow> world ClientsetSecretStore" where
  "world_store ns = NewClientsetSecretStore world_client ns"

text \<open>
  Modelled from the spec: the clock and the serial generator are outside the file;
  the spec treats the generator as an opaque source of IDs keyed by a timestamp.
  Here the clock advances by one at each reading and the serial is the timestamp.
  The rule that selects the primary entry stays a parameter.
\<close>

definition world_Now :: "world \<Rightarrow> 64 word \<times> world" where
  "world_Now w = (clock w, w\<lparr>clock := clock w + 1\<rparr>)"

definition world_BuildPKISerial :: "64 word \<Rightarrow> world \<Rightarrow> int \<times> world" where
  "world_BuildPKISerial t w = (sint t, w)"

definition world_packages :: "(kops_Keyset \<Rightarrow> kops_KeysetItem option) \<Rightarrow> world packages" where
  "world_packages fp =
     \<lparr>time_Now_UnixNano = world_Now, pki_BuildPKISerial = world_BuildPKISerial,
      fi_FindPrimary = fp\<rparr>"

text \<open>
  Modelled from the spec: \<^verbatim>\<open>fi.FindPrimary\<close> is outside the file; the spec names
  "first entry" as one such rule. It is used for concrete runs only.
\<close>

definition FindPrimary_first :: "kops_Keyset \<Rightarrow> kops_KeysetItem option" where
  "FindPrimary_first k = (case Keys (Spec k) of [] \<Rightarrow> None | e # es \<Rightarrow> Some e)"

section \<open>What the spec asks for, stated apart from the code\<close>

text \<open>
  The record the spec asks \<^verbatim>\<open>createSecret\<close> to build, in the spec's words: the
  prefixed name, the plain-secret type, and exactly one entry holding the payload and
  the serial as its ID. It is compared below with the record the code builds.
\<close>

definition spec_record :: "string \<Rightarrow> int \<Rightarrow> bytes \<Rightarrow> kops_Keyset" where
  "spec_record name serial payload =
     \<lparr>Name = ''token-'' @ name,
      Spec = \<lparr>Type = SecretTypeSecret,
              Keys = [\<lparr>Id = big_Int_String serial, PrivateMaterial = payload\<rparr>]\<rparr>\<rparr>"

section \<open>Concrete stores for the runs below\<close>

definition world_of :: "(string \<times> kops_Keyset) list \<Rightarrow> other_op list list \<Rightarrow> world" where
  "world_of rs sched = \<lparr>records = rs, clock = 0, others = sched\<rparr>"

text \<open>A record for the secret \<open>a\<close> that has no entries, hence no primary.\<close>

definition keyless_record :: kops_Keyset where
  "keyless_record = \<lparr>Name = ''token-a'', Spec = \<lparr>Type = SecretTypeSecret, Keys = []\<rparr>\<rparr>"

text \<open>The record another writer stores for the secret \<open>a\<close>, with payload \<open>[2]\<close>.\<close>

definition rival_record :: kops_Keyset where
  "rival_record =
     \<lparr>Name = ''token-a'',
      Spec = \<lparr>Type = SecretTypeSecret, Keys = [\<lparr>Id = ''7'', PrivateMaterial = [2]\<rparr>]\<rparr>\<rparr>"

text \<open>A client whose store cannot be reached: every call fails with the given error.\<close>

definition failing_client :: "error \<Rightarrow> 's KopsInterface" where
  "failing_client err =
     \<lparr>Keysets_Get = (\<lambda>ns n w. (Inl err, w)),
      Keysets_List = (\<lambda>ns w. (Inl err, w)),
      Keysets_Create = (\<lambda>ns k w. (Inl err, w)),
      Keysets_DeleteItem = (\<lambda>ns n ty i w. (Some err, w))\<rparr>"

text \<open>
  A store with plain secrets, keypairs (one of them under a prefixed name) and a record
  of another namespace.
\<close>

definition mixed_records :: "(string \<times> kops_Keyset) list" where
  "mixed_records =
     [(''ns'', \<lparr>Name = ''token-a'', Spec = \<lparr>Type = SecretTypeSecret,
         Keys = [\<lparr>Id = ''1'', PrivateMaterial = [1]\<rparr>]\<rparr>\<rparr>),
      (''ns'', \<lparr>Name = ''ca'', Spec = \<lparr>Type = SecretTypeKeypair,
         Keys = [\<lparr>Id = ''2'', PrivateMaterial = [2]\<rparr>]\<rparr>\<rparr>),
      (''elsewhere'', \<lparr>Name = ''token-z'', Spec = \<lparr>Type = SecretTypeSecret,
         Keys = [\<lparr>Id = ''3'', PrivateMaterial = [3]\<rparr>]\<rparr>\<rparr>),
      (''ns'', \<lparr>Name = ''token-b'', Spec = \<lparr>Type = SecretTypeSecret, Keys = []\<rparr>\<rparr>),
      (''ns'', \<lparr>Name = ''token-kp'', Spec = \<lparr>Type = SecretTypeKeypair, Keys = []\<rparr>\<rparr>)]"

section \<open>Lemmas on the operations\<close>

declare nat_String.simps [simp del]

lemma loadSecret_cases:
  "loadSecret P c name w =
     (case Keysets_Get (clientset c) (namespace c) (NamePrefix @ name) w of
        (Inl err, w') \<Rightarrow>
          if IsNotFound err then ((None, None), w')
          else ((None, Some (Errorf_reading_keyset (NamePrefix @ name) err)), w')
      | (Inr keyset, w') \<Rightarrow>
          (case fi_FindPrimary P keyset of
             None \<Rightarrow> ((None, None), w')
           | Some primary \<Rightarrow> ((Some \<lparr>Data = PrivateMaterial primary\<rparr>, None), w')))"
  by (simp add: loadSecret_def parseSecret_def Let_def
      split: prod.splits sum.splits option.splits)

lemma parseSecret_no_error: "snd (parseSecret P k) = None"
  by (simp add: parseSecret_def Let_def split: option.splits)

lemma FindSecret_eq_loadSecret: "FindSecret P c name w = loadSecret P c name w"
  by (auto simp: FindSecret_def loadSecret_cases split: prod.splits sum.splits option.splits)

lemma createSecret_Some:
  "createSecret P c (Some sv) name w =
     (case time_Now_UnixNano P w of (t, w1) \<Rightarrow>
      case pki_BuildPKISerial P t w1 of (serial, w2) \<Rightarrow>
      case Keysets_Create (clientset c) (namespace c) (spec_record name serial (Data sv)) w2 of
        (r, w3) \<Rightarrow> (Return r, w3))"
  by (simp add: createSecret_def spec_record_def zero_Keyset_def NamePrefix_def Let_def
      split: prod.splits)

lemma createSecret_None:
  "createSecret P c None name w =
     (case time_Now_UnixNano P w of (t, w1) \<Rightarrow>
      case pki_BuildPKISerial P t w1 of (serial, w2) \<Rightarrow> (Panic, w2))"
  by (simp add: createSecret_def Let_def split: prod.splits)

text \<open>The two iterations of the loop, written out.\<close>

lemma loop_second:
  "GetOrCreateSecret_loop P c name s (Suc 0) w =
     (case FindSecret P c name w of
        ((x, Some err), w1) \<Rightarrow> (Return (None, False, Some err), w1)
      | ((Some v, None), w1) \<Rightarrow> (Return (Some v, False, None), w1)
      | ((None, None), w1) \<Rightarrow>
          (case createSecret P c s name w1 of
             (Panic, w2) \<Rightarrow> (Panic, w2)
           | (Fatalf m e, w2) \<Rightarrow> (Fatalf m e, w2)
           | (Return (Inl err), w2) \<Rightarrow> (Return (None, False, Some err), w2)
           | (Return (Inr k), w2) \<Rightarrow> GetOrCreateSecret_reread P c name w2))"
  by (subst GetOrCreateSecret_loop.simps)
     (simp split: prod.splits option.splits outcome.splits sum.splits)

lemma loop_first:
  "GetOrCreateSecret_loop P c name s 0 w =
     (case FindSecret P c name w of
        ((x, Some err), w1) \<Rightarrow> (Return (None, False, Some err), w1)
      | ((Some v, None), w1) \<Rightarrow> (Return (Some v, False, None), w1)
      | ((None, None), w1) \<Rightarrow>
          (case createSecret P c s name w1 of
             (Panic, w2) \<Rightarrow> (Panic, w2)
           | (Fatalf m e, w2) \<Rightarrow> (Fatalf m e, w2)
           | (Return (Inl err), w2) \<Rightarrow>
               if IsAlreadyExists err
               then GetOrCreateSecret_loop P c name s (Suc 0) w2
               else (Return (None, False, Some err), w2)
           | (Return (Inr k), w2) \<Rightarrow> GetOrCreateSecret_reread P c name w2))"
  by (subst GetOrCreateSecret_loop.simps)
     (simp split: prod.splits option.splits outcome.splits sum.splits)

subsection \<open>The log of a wrapped client\<close>

lemma loadSecret_logged:
  "loadSecret (beside_log P) (logged c) name (w, l) =
     (case loadSecret P c name w of
        (r, w') \<Rightarrow> (r, (w', l @ [CallGet (namespace c) (NamePrefix @ name)])))"
  by (simp add: loadSecret_cases logged_def logged_client_def beside_log_def
      split: prod.splits sum.splits option.splits)

lemma createSecret_logged:
  "createSecret (beside_log P) (logged c) (Some sv) name (w, l) =
     (case time_Now_UnixNano P w of (t, w1) \<Rightarrow>
      case pki_BuildPKISerial P t w1 of (serial, w2) \<Rightarrow>
      case Keysets_Create (clientset c) (namespace c) (spec_record name serial (Data sv)) w2 of
        (r, w3) \<Rightarrow>
          (Return r,
           (w3, l @ [CallCreate (namespace c) (spec_record name serial (Data sv))])))"
  by (simp add: createSecret_Some logged_def logged_client_def beside_log_def
      split: prod.splits)

lemma createSecret_logged_creates:
  "creates (snd (snd (createSecret (beside_log P) (logged c) s name (w, l)))) \<le> Suc (creates l)"
proof (cases s)
  case None
  then show ?thesis
    by (simp add: createSecret_None beside_log_def split: prod.splits)
next
  case (Some sv)
  then show ?thesis
    by (simp add: createSecret_logged creates_def split: prod.splits)
qed

lemma loadSecret_logged_creates:
  "creates (snd (snd (loadSecret (beside_log P) (logged c) name (w, l)))) = creates l"
  by (simp add: loadSecret_logged creates_def split: prod.splits)

lemma reread_logged_creates:
  "creates (snd (snd (GetOrCreateSecret_reread (beside_log P) (logged c) name (w, l))))
     = creates l"
  using loadSecret_logged_creates [of P c name w l]
  by (auto simp: GetOrCreateSecret_reread_def split: prod.splits option.splits)

text \<open>
  From iteration \<open>i\<close> on, the loop makes at most \<open>2 - i\<close> create calls: by induction
  on the iterations left.
\<close>

lemma loop_logged_creates:
  "creates (snd (snd (GetOrCreateSecret_loop (beside_log P) (logged c) name s i (w, l))))
     \<le> creates l + (2 - i)"
proof (induction i arbitrary: w l rule: measure_induct_rule [where f = "\<lambda>i. 2 - i"])
  case (less i)
  show ?case
  proof (cases "i < 2")
    case False
    then show ?thesis
      by (subst GetOrCreateSecret_loop.simps) (simp add: reread_logged_creates)
  next
    case True
    obtain r1 w1 l1 where
      f: "FindSecret (beside_log P) (logged c) name (w, l) = (r1, (w1, l1))"
      by (metis surj_pair)
    have l1: "creates l1 = creates l"
      using loadSecret_logged_creates [of P c name w l] f
      by (simp add: FindSecret_eq_loadSecret)
    obtain r2 w2 l2 where
      cr: "createSecret (beside_log P) (logged c) s name (w1, l1) = (r2, (w2, l2))"
      by (metis surj_pair)
    have l2: "creates l2 \<le> Suc (creates l)"
      using createSecret_logged_creates [of P c s name w1 l1] cr l1 by simp
    have rec: "creates (snd (snd (GetOrCreateSecret_loop (beside_log P) (logged c)
                  name s (i + 1) (w2, l2)))) \<le> creates l2 + (2 - (i + 1))"
      using True by (intro less.IH) simp
    have rr: "creates (snd (snd (GetOrCreateSecret_reread (beside_log P) (logged c)
                  name (w2, l2)))) = creates l2"
      by (rule reread_logged_creates)
    show ?thesis
      using True f cr l1 l2 rec rr
      by (subst GetOrCreateSecret_loop.simps)
         (auto split: prod.splits option.splits outcome.splits sum.splits)
  qed
qed

subsection \<open>Properties of the shared store\<close>

text \<open>The definitions that evaluate a run on a concrete store.\<close>

lemmas world_simps = world_store_def NewClientsetSecretStore_def world_client_def
  world_packages_def world_Get_def world_List_def world_Create_def world_DeleteItem_def
  world_Now_def world_BuildPKISerial_def others_step_def lookup_def is_record_def
  store_create_def store_update_def store_delete_def NamePrefix_def FindPrimary_first_def
  world_of_def keyless_record_def rival_record_def spec_record_def Let_def

lemma others_step_idle: "others w = [] \<Longrightarrow> others_step w = w"
  by (simp add: others_step_def)

lemma loadSecret_world:
  "loadSecret (world_packages fp) (world_store ns) name w =
     (case lookup (records (others_step w)) ns (NamePrefix @ name) of
        None \<Rightarrow> ((None, None), others_step w)
      | Some k \<Rightarrow> (parseSecret (world_packages fp) k, others_step w))"
  by (simp add: loadSecret_def world_store_def NewClientsetSecretStore_def world_client_def
      world_Get_def Let_def split: option.splits)

lemma loadSecret_world_Some:
  assumes "loadSecret (world_packages fp) (world_store ns) name w = ((Some s, e), w')"
  shows "map_option (parseSecret (world_packages fp)) (lookup (records w') ns (NamePrefix @ name))
           = Some (Some s, None)"
proof (cases "lookup (records (others_step w)) ns (NamePrefix @ name)")
  case None
  with assms show ?thesis by (simp add: loadSecret_world)
next
  case (Some k)
  with assms have "parseSecret (world_packages fp) k = (Some s, e)" and "w' = others_step w"
    by (simp_all add: loadSecret_world)
  moreover from this have "e = None"
    using parseSecret_no_error [of "world_packages fp" k] by simp
  ultimately show ?thesis using Some by simp
qed

lemma reread_world_Some:
  assumes "GetOrCreateSecret_reread (world_packages fp) (world_store ns) name w
             = (Return (Some s, cr, None), w')"
  shows "map_option (parseSecret (world_packages fp)) (lookup (records w') ns (NamePrefix @ name))
           = Some (Some s, None)"
  using assms
  by (auto simp: GetOrCreateSecret_reread_def split: prod.splits option.splits
      dest: loadSecret_world_Some)

lemma loop_second_world_Some:
  assumes "GetOrCreateSecret_loop (world_packages fp) (world_store ns) name cand (Suc 0) w
             = (Return (Some s, cr, None), w')"
  shows "map_option (parseSecret (world_packages fp)) (lookup (records w') ns (NamePrefix @ name))
           = Some (Some s, None)"
  using assms
  by (auto simp: loop_second FindSecret_eq_loadSecret
      split: prod.splits option.splits outcome.splits sum.splits
      dest: loadSecret_world_Some reread_world_Some)

lemma GetOrCreateSecret_world_Some:
  assumes "GetOrCreateSecret (world_packages fp) (world_store ns) name cand w
             = (Return (Some s, cr, None), w')"
  shows "map_option (parseSecret (world_packages fp)) (lookup (records w') ns (NamePrefix @ name))
           = Some (Some s, None)"
  using assms
  by (auto simp: GetOrCreateSecret_def loop_first FindSecret_eq_loadSecret
      split: prod.splits option.splits outcome.splits sum.splits if_splits
      dest: loadSecret_world_Some reread_world_Some loop_second_world_Some)

lemma loadSecret_world_idle:
  "others w = [] \<Longrightarrow> snd (loadSecret (world_packages fp) (world_store ns) name w) = w"
  by (simp add: loadSecret_world others_step_idle split: option.splits)

lemma createSecret_world_idle:
  "others w = [] \<Longrightarrow>
     others (snd (createSecret (world_packages fp) (world_store ns) s name w)) = []"
  by (cases s)
     (simp_all add: createSecret_Some createSecret_None world_packages_def world_store_def
       NewClientsetSecretStore_def world_client_def world_Now_def world_BuildPKISerial_def
       world_Create_def others_step_def Let_def split: prod.splits)

lemma reread_world_idle:
  "others w = [] \<Longrightarrow>
     snd (GetOrCreateSecret_reread (world_packages fp) (world_store ns) name w) = w"
  using loadSecret_world_idle [of w fp ns name]
  by (auto simp: GetOrCreateSecret_reread_def split: prod.splits option.splits)

lemma loop_second_world_idle:
  assumes "others w = []"
  shows "others (snd (GetOrCreateSecret_loop (world_packages fp) (world_store ns) name cand (Suc 0) w)) = []"
proof -
  obtain r1 w1 where f: "loadSecret (world_packages fp) (world_store ns) name w = (r1, w1)"
    by (metis surj_pair)
  have w1: "w1 = w" using loadSecret_world_idle [OF assms, of fp ns name] f by simp
  obtain r2 w2 where cr: "createSecret (world_packages fp) (world_store ns) cand name w = (r2, w2)"
    by (metis surj_pair)
  have w2: "others w2 = []" using createSecret_world_idle [OF assms, of fp ns cand name] cr by simp
  have rr: "snd (GetOrCreateSecret_reread (world_packages fp) (world_store ns) name w2) = w2"
    using w2 by (rule reread_world_idle)
  show ?thesis
    using f w1 cr w2 rr assms
    by (auto simp: loop_second FindSecret_eq_loadSecret
        split: prod.splits option.splits outcome.splits sum.splits)
qed

lemma GetOrCreateSecret_world_idle:
  assumes "others w = []"
  shows "others (snd (GetOrCreateSecret (world_packages fp) (world_store ns) name cand w)) = []"
proof -
  obtain r1 w1 where f: "loadSecret (world_packages fp) (world_store ns) name w = (r1, w1)"
    by (metis surj_pair)
  have w1: "w1 = w" using loadSecret_world_idle [OF assms, of fp ns name] f by simp
  obtain r2 w2 where cr: "createSecret (world_packages fp) (world_store ns) cand name w = (r2, w2)"
    by (metis surj_pair)
  have w2: "others w2 = []" using createSecret_world_idle [OF assms, of fp ns cand name] cr by simp
  have rr: "snd (GetOrCreateSecret_reread (world_packages fp) (world_store ns) name w2) = w2"
    using w2 by (rule reread_world_idle)
  have l2: "others (snd (GetOrCreateSecret_loop (world_packages fp) (world_store ns) name cand (Suc 0) w2)) = []"
    using w2 by (rule loop_second_world_idle)
  show ?thesis
    using f w1 cr w2 rr l2 assms
    by (auto simp: GetOrCreateSecret_def loop_first FindSecret_eq_loadSecret
        split: prod.splits option.splits outcome.splits sum.splits)
qed

lemma GetOrCreateSecret_found:
  assumes "Keysets_Get (clientset c) (namespace c) (NamePrefix @ name) w = (Inr keyset, w1)"
    and "fi_FindPrimary P keyset = Some primary"
  shows "GetOrCreateSecret P c name candidate w =
           (Return (Some \<lparr>Data = PrivateMaterial primary\<rparr>, False, None), w1)"
  using assms
  by (simp add: GetOrCreateSecret_def loop_first FindSecret_eq_loadSecret loadSecret_cases)

lemma GetOrCreateSecret_world_again:
  assumes "others v = []"
    and "GetOrCreateSecret (world_packages fp) (world_store ns) name candA v
           = (Return (Some sA, crA, None), vA)"
  shows "GetOrCreateSecret (world_packages fp) (world_store ns) name candB vA
           = (Return (Some sA, False, None), vA)"
proof -
  have idle: "others vA = []"
    using GetOrCreateSecret_world_idle [OF assms(1), of fp ns name candA] assms(2) by simp
  have "map_option (parseSecret (world_packages fp)) (lookup (records vA) ns (NamePrefix @ name))
          = Some (Some sA, None)"
    using assms(2) by (rule GetOrCreateSecret_world_Some)
  then have "loadSecret (world_packages fp) (world_store ns) name vA = ((Some sA, None), vA)"
    using idle by (auto simp: loadSecret_world others_step_idle split: option.splits)
  then show ?thesis
    by (simp add: GetOrCreateSecret_def loop_first FindSecret_eq_loadSecret)
qed

lemma lookup_append_new:
  "lookup rs ns (Name k) = None \<Longrightarrow> lookup (rs @ [(ns, k)]) ns (Name k) = Some k"
  by (induction rs) (auto simp: lookup_def is_record_def)

lemma createSecret_world_fresh:
  assumes "others v = []"
    and "lookup (records v) ns (NamePrefix @ name) = None"
  shows "createSecret (world_packages fp) (world_store ns) (Some s) name v =
           (Return (Inr (spec_record name (sint (clock v)) (Data s))),
            v\<lparr>clock := clock v + 1,
              records := records v @ [(ns, spec_record name (sint (clock v)) (Data s))]\<rparr>)"
  using assms
  by (simp add: createSecret_Some world_packages_def world_store_def
      NewClientsetSecretStore_def world_client_def world_Now_def world_BuildPKISerial_def
      world_Create_def others_step_def store_create_def spec_record_def NamePrefix_def Let_def)

lemma spec_record_Name: "Name (spec_record name serial payload) = NamePrefix @ name"
  by (simp add: spec_record_def NamePrefix_def)

lemma loadSecret_world_written:
  assumes "others v = []"
    and "lookup (records v) ns (NamePrefix @ name) = None"
  shows "loadSecret (world_packages fp) (world_store ns) name
           (v\<lparr>clock := t, records := records v @ [(ns, spec_record name serial payload)]\<rparr>) =
           (parseSecret (world_packages fp) (spec_record name serial payload),
            v\<lparr>clock := t, records := records v @ [(ns, spec_record name serial payload)]\<rparr>)"
proof -
  have "lookup (records v @ [(ns, spec_record name serial payload)]) ns (Name (spec_record name serial payload))
          = Some (spec_record name serial payload)"
    using assms(2) by (intro lookup_append_new) (simp add: spec_record_Name)
  then show ?thesis
    using assms(1) by (simp add: loadSecret_world others_step_def spec_record_Name)
qed

lemma GetOrCreateSecret_world_fresh:
  assumes "others v = []"
    and "lookup (records v) ns (NamePrefix @ name) = None"
    and "fp (spec_record name (sint (clock v)) (Data A))
           = Some \<lparr>Id = big_Int_String (sint (clock v)), PrivateMaterial = Data A\<rparr>"
  shows "GetOrCreateSecret (world_packages fp) (world_store ns) name (Some A) v =
           (Return (Some A, True, None),
            v\<lparr>clock := clock v + 1,
              records := records v @ [(ns, spec_record name (sint (clock v)) (Data A))]\<rparr>)"
proof -
  have f: "FindSecret (world_packages fp) (world_store ns) name v = ((None, None), v)"
    using assms(1,2) by (simp add: FindSecret_eq_loadSecret loadSecret_world others_step_idle)
  have p: "parseSecret (world_packages fp) (spec_record name (sint (clock v)) (Data A)) = (Some A, None)"
    using assms(3) by (simp add: parseSecret_def world_packages_def)
  show ?thesis
    by (simp add: GetOrCreateSecret_def loop_first f createSecret_world_fresh [OF assms(1,2)]
        GetOrCreateSecret_reread_def loadSecret_world_written [OF assms(1,2)] p)
qed

lemma ListSecrets_loop_eq:
  "ListSecrets_loop items names =
     names @ map (\<lambda>k. TrimPrefix (Name k) NamePrefix)
               (filter (\<lambda>k. Type (Spec k) = SecretTypeSecret) items)"
  by (induction items arbitrary: names) simp_all

lemma TrimPrefix_added: "TrimPrefix (p @ x) p = x"
  by (simp add: TrimPrefix_def HasPrefix_def)

lemma ListSecrets_world:
  "ListSecrets (world_store ns) v =
     ((map (\<lambda>k. TrimPrefix (Name k) NamePrefix)
         (filter (\<lambda>k. Type (Spec k) = SecretTypeSecret)
            (map snd (filter (\<lambda>r. fst r = ns) (records (others_step v))))), None),
      others_step v)"
  by (simp add: ListSecrets_def world_store_def NewClientsetSecretStore_def world_client_def
      world_List_def Let_def ListSecrets_loop_eq)

lemma GetOrCreateSecret_found_logged:
  assumes "Keysets_Get (clientset c) (namespace c) (NamePrefix @ name) w = (Inr keyset, w1)"
    and "fi_FindPrimary P keyset = Some primary"
  shows "GetOrCreateSecret (beside_log P) (logged c) name candidate (w, l) =
           (Return (Some \<lparr>Data = PrivateMaterial primary\<rparr>, False, None),
            (w1, l @ [CallGet (namespace c) (NamePrefix @ name)]))"
proof -
  have "loadSecret P c name w = ((Some \<lparr>Data = PrivateMaterial primary\<rparr>, None), w1)"
    using assms by (simp add: loadSecret_cases)
  then show ?thesis
    by (simp add: GetOrCreateSecret_def loop_first FindSecret_eq_loadSecret loadSecret_logged)
qed

lemma GetOrCreateSecret_created_first:
  assumes "FindSecret P c name w = ((None, None), w1)"
    and "createSecret P c (Some candidate) name w1 = (Return (Inr k), w2)"
  shows "GetOrCreateSecret P c name (Some candidate) w =
           (case loadSecret P c name w2 of
              ((s, None), w3) \<Rightarrow> (Return (s, True, None), w3)
            | ((s, Some err), w3) \<Rightarrow> (Fatalf name err, w3))"
  using assms
  by (simp add: GetOrCreateSecret_def loop_first GetOrCreateSecret_reread_def
      split: prod.splits option.splits)

lemma GetOrCreateSecret_created_second:
  assumes "FindSecret P c name w = ((None, None), w1)"
    and "createSecret P c (Some candidate) name w1 = (Return (Inl err), w2)"
    and "IsAlreadyExists err"
    and "FindSecret P c name w2 = ((None, None), w3)"
    and "createSecret P c (Some candidate) name w3 = (Return (Inr k), w4)"
  shows "GetOrCreateSecret P c name (Some candidate) w =
           (case loadSecret P c name w4 of
              ((s, None), w5) \<Rightarrow> (Return (s, True, None), w5)
            | ((s, Some err), w5) \<Rightarrow> (Fatalf name err, w5))"
  using assms
  by (simp add: GetOrCreateSecret_def loop_first loop_second GetOrCreateSecret_reread_def
      split: prod.splits option.splits)

lemma createSecret_world_taken:
  assumes "others v = []"
    and "lookup (records v) ns (NamePrefix @ name) = Some k'"
  shows "createSecret (world_packages fp) (world_store ns) (Some s) name v =
           (Return (Inl (StatusError StatusReasonAlreadyExists)), v\<lparr>clock := clock v + 1\<rparr>)"
  using assms
  by (simp add: createSecret_Some world_packages_def world_store_def
      NewClientsetSecretStore_def world_client_def world_Now_def world_BuildPKISerial_def
      world_Create_def others_step_def store_create_def spec_record_def NamePrefix_def Let_def)

lemma createSecret_world_created:
  assumes "others v = []"
    and "createSecret (world_packages fp) (world_store ns) (Some s) name v = (Return (Inr k), v1)"
  shows "lookup (records v) ns (NamePrefix @ name) = None
         \<and> k = spec_record name (sint (clock v)) (Data s)
         \<and> v1 = v\<lparr>clock := clock v + 1, records := records v @ [(ns, k)]\<rparr>"
proof (cases "lookup (records v) ns (NamePrefix @ name)")
  case None
  then show ?thesis
    using assms createSecret_world_fresh [OF assms(1) None, of fp s] by auto
next
  case (Some k')
  then show ?thesis
    using assms createSecret_world_taken [OF assms(1) Some, of fp s] by simp
qed

lemma ListSecrets_world_written:
  assumes "others v = []"
  shows "fst (fst (ListSecrets (world_store ns)
           (v\<lparr>clock := t, records := records v @ [(ns, spec_record name serial payload)]\<rparr>))) =
         fst (fst (ListSecrets (world_store ns) v)) @ [name]"
  using assms
  by (simp add: ListSecrets_world others_step_def spec_record_Name TrimPrefix_added)
     (simp add: spec_record_def)

lemma lookup_Name: "lookup rs ns n = Some k \<Longrightarrow> Name k = n"
  by (induction rs) (auto simp: lookup_def is_record_def split: if_splits)

lemma lookup_store_update_other:
  "Name k \<noteq> n \<Longrightarrow> lookup (store_update rs ns k) ns' n = lookup rs ns' n"
  by (induction rs) (auto simp: lookup_def store_update_def is_record_def)

lemma DeleteSecret_world_other_record:
  assumes "others v = []"
  shows "fst (FindSecret (world_packages fp) (world_store ns) (item_Name it)
            (snd (DeleteSecret (world_store ns) (Some it) v))) =
         fst (FindSecret (world_packages fp) (world_store ns) (item_Name it) v)"
proof -
  have ne: "item_Name it \<noteq> NamePrefix @ item_Name it"
    by (simp add: NamePrefix_def)
  have "others (snd (DeleteSecret (world_store ns) (Some it) v)) = []"
    using assms
    by (simp add: DeleteSecret_def DeleteKeysetItem_def world_store_def
        NewClientsetSecretStore_def world_client_def world_DeleteItem_def others_step_def Let_def
        split: option.splits prod.splits)
  moreover have "lookup (records (snd (DeleteSecret (world_store ns) (Some it) v))) ns
        (NamePrefix @ item_Name it) = lookup (records v) ns (NamePrefix @ item_Name it)"
    using assms ne
    by (auto simp: DeleteSecret_def DeleteKeysetItem_def world_store_def
        NewClientsetSecretStore_def world_client_def world_DeleteItem_def others_step_def Let_def
        lookup_store_update_other
        split: option.splits prod.splits dest: lookup_Name)
  ultimately show ?thesis
    using assms by (simp add: FindSecret_eq_loadSecret loadSecret_world others_step_idle
        split: option.splits)
qed

lemmas run_simps = GetOrCreateSecret_def loop_first loop_second GetOrCreateSecret_reread_def
  FindSecret_eq_loadSecret loadSecret_cases createSecret_Some

section \<open>The claims\<close>

text \<open>
  C1. When the first create attempt of \<^verbatim>\<open>GetOrCreateSecret\<close> fails with an
  already-exists conflict, the call goes on with exactly one more attempt, written out
  here without any further loop: it loads again; a load error is returned; a found
  secret is returned with created=false; otherwise it creates again, and any error of
  this second create, an already-exists conflict included, is returned to the caller
  (a second create that succeeds leads to the re-read of C3). Whatever the store
  answers, the call makes at most two create calls.
\<close>

theorem GetOrCreateSecret_retries_once:
  assumes "FindSecret P c name w = ((None, None), w1)"
    and "createSecret P c (Some secret) name w1 = (Return (Inl err), w2)"
    and "IsAlreadyExists err"
  shows "GetOrCreateSecret P c name (Some secret) w =
     (case FindSecret P c name w2 of
        ((x, Some err2), w3) \<Rightarrow> (Return (None, False, Some err2), w3)
      | ((Some v, None), w3) \<Rightarrow> (Return (Some v, False, None), w3)
      | ((None, None), w3) \<Rightarrow>
          (case createSecret P c (Some secret) name w3 of
             (Return (Inl err2), w4) \<Rightarrow> (Return (None, False, Some err2), w4)
           | (Return (Inr k), w4) \<Rightarrow> GetOrCreateSecret_reread P c name w4
           | (Fatalf m e, w4) \<Rightarrow> (Fatalf m e, w4)
           | (Panic, w4) \<Rightarrow> (Panic, w4)))
     \<and> creates (snd (snd (GetOrCreateSecret (beside_log P) (logged c) name (Some secret)
           (w, l)))) \<le> creates l + 2"
proof
  show "GetOrCreateSecret P c name (Some secret) w =
     (case FindSecret P c name w2 of
        ((x, Some err2), w3) \<Rightarrow> (Return (None, False, Some err2), w3)
      | ((Some v, None), w3) \<Rightarrow> (Return (Some v, False, None), w3)
      | ((None, None), w3) \<Rightarrow>
          (case createSecret P c (Some secret) name w3 of
             (Return (Inl err2), w4) \<Rightarrow> (Return (None, False, Some err2), w4)
           | (Return (Inr k), w4) \<Rightarrow> GetOrCreateSecret_reread P c name w4
           | (Fatalf m e, w4) \<Rightarrow> (Fatalf m e, w4)
           | (Panic, w4) \<Rightarrow> (Panic, w4)))"
    unfolding GetOrCreateSecret_def
    by (simp add: loop_first assms loop_second
        split: prod.splits option.splits outcome.splits sum.splits)
  show "creates (snd (snd (GetOrCreateSecret (beside_log P) (logged c) name (Some secret)
           (w, l)))) \<le> creates l + 2"
    unfolding GetOrCreateSecret_def
    using loop_logged_creates [of P c name "Some secret" 0 w l] by simp
qed

text \<open>
  A run with a second conflict: the store holds a record for \<open>a\<close> that has no
  entries. Both loads find no primary, both creates meet the existing record, and the
  second already-exists error is what the caller gets.
\<close>

theorem GetOrCreateSecret_retries_once_witness:
  "GetOrCreateSecret (world_packages FindPrimary_first) (world_store ''ns'') ''a''
     (Some \<lparr>Data = [1]\<rparr>) (world_of [(''ns'', keyless_record)] [])
   = (Return (None, False, Some (StatusError StatusReasonAlreadyExists)),
      (world_of [(''ns'', keyless_record)] [])\<lparr>clock := 2\<rparr>)"
proof -
  have f: "FindSecret (world_packages FindPrimary_first) (world_store ''ns'') ''a''
      (world_of [(''ns'', keyless_record)] [])
      = ((None, None), world_of [(''ns'', keyless_record)] [])"
    by (simp add: FindSecret_eq_loadSecret loadSecret_cases world_simps)
  have cr: "createSecret (world_packages FindPrimary_first) (world_store ''ns'')
      (Some \<lparr>Data = [1]\<rparr>) ''a'' (world_of [(''ns'', keyless_record)] [])
      = (Return (Inl (StatusError StatusReasonAlreadyExists)),
         (world_of [(''ns'', keyless_record)] [])\<lparr>clock := 1\<rparr>)"
    by (simp add: createSecret_Some world_simps)
  have ex: "IsAlreadyExists (StatusError StatusReasonAlreadyExists)"
    by simp
  show ?thesis
    using GetOrCreateSecret_retries_once [OF f cr ex]
    by (simp add: FindSecret_eq_loadSecret loadSecret_cases createSecret_Some world_simps)
qed

text \<open>
  C2. When the store holds a record for the name and the record has a primary entry,
  \<^verbatim>\<open>GetOrCreateSecret\<close> returns the secret of that primary with created=false, for
  every candidate (a nil candidate included), and the only call that reaches the store
  is the one Get: no create. On a store without other writers, once a call for the name
  has returned a secret, a later call with any other candidate returns that same secret
  with created=false and leaves the store as it was; and when the name was absent and
  the selection rule picks the entry of the record written, the first call returns the
  candidate A itself with created=true, so the later call returns A's payload.
\<close>

theorem GetOrCreateSecret_existing:
  "(Keysets_Get (clientset c) (namespace c) (NamePrefix @ name) w = (Inr keyset, w1) \<and>
    fi_FindPrimary P keyset = Some primary \<longrightarrow>
      GetOrCreateSecret P c name candidate w =
        (Return (Some \<lparr>Data = PrivateMaterial primary\<rparr>, False, None), w1) \<and>
      GetOrCreateSecret (beside_log P) (logged c) name candidate (w, l) =
        (Return (Some \<lparr>Data = PrivateMaterial primary\<rparr>, False, None),
         (w1, l @ [CallGet (namespace c) (NamePrefix @ name)])))
   \<and> (others v = [] \<and>
      GetOrCreateSecret (world_packages fp) (world_store ns) name candA v =
        (Return (Some sA, crA, None), vA) \<longrightarrow>
      GetOrCreateSecret (world_packages fp) (world_store ns) name candB vA =
        (Return (Some sA, False, None), vA))
   \<and> (others v = [] \<and> lookup (records v) ns (NamePrefix @ name) = None \<and>
      fp (spec_record name (sint (clock v)) (Data A)) =
        Some \<lparr>Id = big_Int_String (sint (clock v)), PrivateMaterial = Data A\<rparr> \<longrightarrow>
      GetOrCreateSecret (world_packages fp) (world_store ns) name (Some A) v =
        (Return (Some A, True, None),
         v\<lparr>clock := clock v + 1,
           records := records v @ [(ns, spec_record name (sint (clock v)) (Data A))]\<rparr>))"
  using GetOrCreateSecret_found [of c name w keyset w1 P primary candidate]
    GetOrCreateSecret_found_logged [of c name w keyset w1 P primary candidate l]
    GetOrCreateSecret_world_again [of v fp ns name candA sA crA vA candB]
    GetOrCreateSecret_world_fresh [of v ns name fp A]
  by blast

text \<open>
  A run on the empty store: the call with payload \<open>[1]\<close> creates, the call with payload
  \<open>[2]\<close> returns \<open>[1]\<close> with created=false after a single Get.
\<close>

theorem GetOrCreateSecret_existing_witness:
  "GetOrCreateSecret (world_packages FindPrimary_first) (world_store ''ns'') ''a''
     (Some \<lparr>Data = [1]\<rparr>) (world_of [] []) =
     (Return (Some \<lparr>Data = [1]\<rparr>, True, None),
      \<lparr>records = [(''ns'', spec_record ''a'' 0 [1])], clock = 1, others = []\<rparr>)
   \<and> GetOrCreateSecret (world_packages FindPrimary_first) (world_store ''ns'') ''a''
     (Some \<lparr>Data = [2]\<rparr>)
     \<lparr>records = [(''ns'', spec_record ''a'' 0 [1])], clock = 1, others = []\<rparr> =
     (Return (Some \<lparr>Data = [1]\<rparr>, False, None),
      \<lparr>records = [(''ns'', spec_record ''a'' 0 [1])], clock = 1, others = []\<rparr>)
   \<and> GetOrCreateSecret (beside_log (world_packages FindPrimary_first))
     (logged (world_store ''ns'')) ''a'' (Some \<lparr>Data = [2]\<rparr>)
     (\<lparr>records = [(''ns'', spec_record ''a'' 0 [1])], clock = 1, others = []\<rparr>, []) =
     (Return (Some \<lparr>Data = [1]\<rparr>, False, None),
      (\<lparr>records = [(''ns'', spec_record ''a'' 0 [1])], clock = 1, others = []\<rparr>,
       [CallGet ''ns'' ''token-a'']))"
proof -
  let ?vA = "\<lparr>records = [(''ns'', spec_record ''a'' 0 [1])], clock = 1, others = []\<rparr>"
  have first: "GetOrCreateSecret (world_packages FindPrimary_first) (world_store ''ns'') ''a''
     (Some \<lparr>Data = [1]\<rparr>) (world_of [] []) = (Return (Some \<lparr>Data = [1]\<rparr>, True, None), ?vA)"
    using GetOrCreateSecret_existing [THEN conjunct2, THEN conjunct2, rule_format,
        where v = "world_of [] []" and ns = "''ns''" and name = "''a''"
        and fp = FindPrimary_first and A = "\<lparr>Data = [1]\<rparr>"]
    by (simp add: world_simps)
  have second: "GetOrCreateSecret (world_packages FindPrimary_first) (world_store ''ns'') ''a''
     (Some \<lparr>Data = [2]\<rparr>) ?vA = (Return (Some \<lparr>Data = [1]\<rparr>, False, None), ?vA)"
    using GetOrCreateSecret_existing [THEN conjunct2, THEN conjunct1, rule_format,
        where v = "world_of [] []" and ns = "''ns''"
        and name = "''a''" and fp = FindPrimary_first and candA = "Some \<lparr>Data = [1]\<rparr>"
        and sA = "\<lparr>Data = [1]\<rparr>" and crA = True and vA = ?vA
        and candB = "Some \<lparr>Data = [2]\<rparr>"] first
    by (simp add: world_of_def)
  have third: "GetOrCreateSecret (beside_log (world_packages FindPrimary_first))
     (logged (world_store ''ns'')) ''a'' (Some \<lparr>Data = [2]\<rparr>) (?vA, []) =
     (Return (Some \<lparr>Data = [1]\<rparr>, False, None), (?vA, [CallGet ''ns'' ''token-a'']))"
    using GetOrCreateSecret_existing [where c = "world_store ''ns''" and name = "''a''"
        and w = ?vA and ?w1.0 = ?vA and keyset = "spec_record ''a'' 0 [1]"
        and P = "world_packages FindPrimary_first"
        and primary = "\<lparr>Id = big_Int_String 0, PrivateMaterial = [1]\<rparr>"
        and candidate = "Some \<lparr>Data = [2]\<rparr>" and l = "[]",
        THEN conjunct1, rule_format, THEN conjunct2]
    by (simp add: world_simps)
  from first second third show ?thesis by simp
qed

text \<open>
  C3. When a create attempt of \<^verbatim>\<open>GetOrCreateSecret\<close> succeeds, on the first attempt
  or on the second, the call loads the record again and returns what this load gives,
  with created=true; the candidate is not consulted (a load that fails ends the process
  in \<^verbatim>\<open>glog.Fatalf\<close>). On the store shared with other writers, whatever they do,
  a secret that the call returns is the primary of the record stored under the name
  when the call returns.
\<close>

theorem GetOrCreateSecret_returns_reread:
  "(FindSecret P c name w = ((None, None), w1) \<and>
    createSecret P c (Some candidate) name w1 = (Return (Inr k), w2) \<longrightarrow>
      GetOrCreateSecret P c name (Some candidate) w =
        (case loadSecret P c name w2 of
           ((s, None), w3) \<Rightarrow> (Return (s, True, None), w3)
         | ((s, Some err), w3) \<Rightarrow> (Fatalf name err, w3)))
   \<and> (FindSecret P c name w = ((None, None), w1) \<and>
      createSecret P c (Some candidate) name w1 = (Return (Inl err1), w2) \<and>
      IsAlreadyExists err1 \<and>
      FindSecret P c name w2 = ((None, None), w3) \<and>
      createSecret P c (Some candidate) name w3 = (Return (Inr k), w4) \<longrightarrow>
      GetOrCreateSecret P c name (Some candidate) w =
        (case loadSecret P c name w4 of
           ((s, None), w5) \<Rightarrow> (Return (s, True, None), w5)
         | ((s, Some err), w5) \<Rightarrow> (Fatalf name err, w5)))
   \<and> (GetOrCreateSecret (world_packages fp) (world_store ns) name cand v =
        (Return (Some s, created, None), v') \<longrightarrow>
      map_option (parseSecret (world_packages fp)) (lookup (records v') ns (NamePrefix @ name))
        = Some (Some s, None))"
  using GetOrCreateSecret_created_first [of P c name w w1 candidate k w2]
    GetOrCreateSecret_created_second [of P c name w w1 candidate err1 w2 w3 k w4]
    GetOrCreateSecret_world_Some [of fp ns name cand v s created v']
  by blast

text \<open>
  Three two-writer runs with candidate payload \<open>[1]\<close> and a rival record of payload
  \<open>[2]\<close>. The create succeeds and the rival replaces the record before the re-read:
  the call returns \<open>[2]\<close> with created=true. The rival creates first and deletes
  again: the second create succeeds and the re-read gives \<open>[1]\<close>. The rival creates
  first and stays: the call returns the stored \<open>[2]\<close>, with created=false.
\<close>

theorem GetOrCreateSecret_returns_reread_witness:
  "GetOrCreateSecret (world_packages FindPrimary_first) (world_store ''ns'') ''a''
     (Some \<lparr>Data = [1]\<rparr>)
     (world_of [] [[], [], [OtherDelete ''ns'' ''token-a'', OtherCreate ''ns'' rival_record]]) =
     (Return (Some \<lparr>Data = [2]\<rparr>, True, None),
      \<lparr>records = [(''ns'', rival_record)], clock = 1, others = []\<rparr>)
   \<and> GetOrCreateSecret (world_packages FindPrimary_first) (world_store ''ns'') ''a''
     (Some \<lparr>Data = [1]\<rparr>)
     (world_of [] [[], [OtherCreate ''ns'' rival_record], [OtherDelete ''ns'' ''token-a'']]) =
     (Return (Some \<lparr>Data = [1]\<rparr>, True, None),
      \<lparr>records = [(''ns'', spec_record ''a'' 1 [1])], clock = 2, others = []\<rparr>)
   \<and> GetOrCreateSecret (world_packages FindPrimary_first) (world_store ''ns'') ''a''
     (Some \<lparr>Data = [1]\<rparr>) (world_of [] [[], [OtherCreate ''ns'' rival_record]]) =
     (Return (Some \<lparr>Data = [2]\<rparr>, False, None),
      \<lparr>records = [(''ns'', rival_record)], clock = 1, others = []\<rparr>)
   \<and> map_option (parseSecret (world_packages FindPrimary_first))
       (lookup [(''ns'', rival_record)] ''ns'' ''token-a'') = Some (Some \<lparr>Data = [2]\<rparr>, None)"
proof -
  let ?P = "world_packages FindPrimary_first" and ?c = "world_store ''ns''"
  let ?v1 = "world_of [] [[], [], [OtherDelete ''ns'' ''token-a'', OtherCreate ''ns'' rival_record]]"
  let ?v2 = "world_of [] [[], [OtherCreate ''ns'' rival_record], [OtherDelete ''ns'' ''token-a'']]"
  let ?v3 = "world_of [] [[], [OtherCreate ''ns'' rival_record]]"
  have first: "GetOrCreateSecret ?P ?c ''a'' (Some \<lparr>Data = [1]\<rparr>) ?v1 =
     (Return (Some \<lparr>Data = [2]\<rparr>, True, None),
      \<lparr>records = [(''ns'', rival_record)], clock = 1, others = []\<rparr>)"
    using GetOrCreateSecret_returns_reread [where P = ?P and c = ?c and name = "''a''"
        and w = ?v1 and candidate = "\<lparr>Data = [1]\<rparr>"
        and ?w1.0 = "\<lparr>records = [], clock = 0,
              others = [[], [OtherDelete ''ns'' ''token-a'', OtherCreate ''ns'' rival_record]]\<rparr>"
        and k = "spec_record ''a'' 0 [1]"
        and ?w2.0 = "\<lparr>records = [(''ns'', spec_record ''a'' 0 [1])], clock = 1,
              others = [[OtherDelete ''ns'' ''token-a'', OtherCreate ''ns'' rival_record]]\<rparr>",
        THEN conjunct1, rule_format]
    by (simp add: FindSecret_eq_loadSecret loadSecret_cases createSecret_Some world_simps)
  have second: "GetOrCreateSecret ?P ?c ''a'' (Some \<lparr>Data = [1]\<rparr>) ?v2 =
     (Return (Some \<lparr>Data = [1]\<rparr>, True, None),
      \<lparr>records = [(''ns'', spec_record ''a'' 1 [1])], clock = 2, others = []\<rparr>)"
    using GetOrCreateSecret_returns_reread [where P = ?P and c = ?c and name = "''a''"
        and w = ?v2 and candidate = "\<lparr>Data = [1]\<rparr>"
        and ?w1.0 = "\<lparr>records = [], clock = 0,
              others = [[OtherCreate ''ns'' rival_record], [OtherDelete ''ns'' ''token-a'']]\<rparr>"
        and ?err1.0 = "StatusError StatusReasonAlreadyExists"
        and ?w2.0 = "\<lparr>records = [(''ns'', rival_record)], clock = 1,
              others = [[OtherDelete ''ns'' ''token-a'']]\<rparr>"
        and ?w3.0 = "\<lparr>records = [], clock = 1, others = []\<rparr>"
        and k = "spec_record ''a'' 1 [1]"
        and ?w4.0 = "\<lparr>records = [(''ns'', spec_record ''a'' 1 [1])], clock = 2, others = []\<rparr>",
        THEN conjunct2, THEN conjunct1, rule_format]
    by (simp add: FindSecret_eq_loadSecret loadSecret_cases createSecret_Some world_simps)
  have third: "GetOrCreateSecret ?P ?c ''a'' (Some \<lparr>Data = [1]\<rparr>) ?v3 =
     (Return (Some \<lparr>Data = [2]\<rparr>, False, None),
      \<lparr>records = [(''ns'', rival_record)], clock = 1, others = []\<rparr>)"
    by (simp add: run_simps world_simps)
  have fourth: "map_option (parseSecret ?P) (lookup [(''ns'', rival_record)] ''ns'' ''token-a'')
      = Some (Some \<lparr>Data = [2]\<rparr>, None)"
    using GetOrCreateSecret_returns_reread [where fp = FindPrimary_first and ns = "''ns''"
        and name = "''a''" and cand = "Some \<lparr>Data = [1]\<rparr>" and v = ?v3
        and s = "\<lparr>Data = [2]\<rparr>" and created = False
        and v' = "\<lparr>records = [(''ns'', rival_record)], clock = 1, others = []\<rparr>",
        THEN conjunct2, THEN conjunct2, rule_format] third
    by (simp add: NamePrefix_def)
  from first second third fourth show ?thesis by simp
qed

text \<open>
  C4. When the store answers the Get with a not-found error, and when it answers
  with a record in which no entry is primary, \<^verbatim>\<open>FindSecret\<close> returns no secret and no
  error, while \<^verbatim>\<open>Secret\<close> returns the error "Secret not found". The error of
  \<^verbatim>\<open>FindSecret\<close> is non-nil exactly when the Get failed with an error that is not
  not-found, and then it wraps that error.
\<close>

theorem FindSecret_absent_Secret_not_found:
  "(Keysets_Get (clientset c) (namespace c) (NamePrefix @ name) w = (Inl err, w') \<and>
    IsNotFound err \<longrightarrow>
      FindSecret P c name w = ((None, None), w') \<and>
      Secret P c name w = ((None, Some (Errorf_Secret_not_found name)), w'))
   \<and> (Keysets_Get (clientset c) (namespace c) (NamePrefix @ name) w = (Inr keyset, w') \<and>
      fi_FindPrimary P keyset = None \<longrightarrow>
      FindSecret P c name w = ((None, None), w') \<and>
      Secret P c name w = ((None, Some (Errorf_Secret_not_found name)), w'))
   \<and> snd (fst (FindSecret P c name w)) =
       (case fst (Keysets_Get (clientset c) (namespace c) (NamePrefix @ name) w) of
          Inl err \<Rightarrow>
            if IsNotFound err then None
            else Some (Errorf_reading_keyset (NamePrefix @ name) err)
        | Inr keyset \<Rightarrow> None)"
  by (auto simp: Secret_def FindSecret_eq_loadSecret loadSecret_cases
      split: prod.splits sum.splits option.splits)

text \<open>
  The three cases at concrete stores: an empty store, a store whose record for \<open>a\<close>
  has no entries, and a store that cannot be reached.
\<close>

theorem FindSecret_absent_Secret_not_found_witness:
  "FindSecret (world_packages FindPrimary_first) (world_store ''ns'') ''nonexistent''
     (world_of [] []) = ((None, None), world_of [] [])
   \<and> Secret (world_packages FindPrimary_first) (world_store ''ns'') ''nonexistent''
     (world_of [] []) = ((None, Some (Errorf_Secret_not_found ''nonexistent'')), world_of [] [])
   \<and> FindSecret (world_packages FindPrimary_first) (world_store ''ns'') ''a''
     (world_of [(''ns'', keyless_record)] []) =
       ((None, None), world_of [(''ns'', keyless_record)] [])
   \<and> Secret (world_packages FindPrimary_first) (world_store ''ns'') ''a''
     (world_of [(''ns'', keyless_record)] []) =
       ((None, Some (Errorf_Secret_not_found ''a'')), world_of [(''ns'', keyless_record)] [])
   \<and> snd (fst (FindSecret (world_packages FindPrimary_first)
       (NewClientsetSecretStore (failing_client (PlainError ''connection refused'')) ''ns'')
       ''a'' (world_of [] []))) =
       Some (Errorf_reading_keyset ''token-a'' (PlainError ''connection refused''))"
proof -
  let ?P = "world_packages FindPrimary_first" and ?c = "world_store ''ns''"
  have a: "FindSecret ?P ?c ''nonexistent'' (world_of [] []) = ((None, None), world_of [] [])
     \<and> Secret ?P ?c ''nonexistent'' (world_of [] []) =
         ((None, Some (Errorf_Secret_not_found ''nonexistent'')), world_of [] [])"
    using FindSecret_absent_Secret_not_found [where c = ?c and name = "''nonexistent''"
        and w = "world_of [] []" and w' = "world_of [] []" and P = ?P
        and err = "StatusError StatusReasonNotFound", THEN conjunct1, rule_format]
    by (simp add: world_simps)
  have b: "FindSecret ?P ?c ''a'' (world_of [(''ns'', keyless_record)] []) =
       ((None, None), world_of [(''ns'', keyless_record)] [])
     \<and> Secret ?P ?c ''a'' (world_of [(''ns'', keyless_record)] []) =
       ((None, Some (Errorf_Secret_not_found ''a'')), world_of [(''ns'', keyless_record)] [])"
    using FindSecret_absent_Secret_not_found [where c = ?c and name = "''a''"
        and w = "world_of [(''ns'', keyless_record)] []"
        and w' = "world_of [(''ns'', keyless_record)] []" and P = ?P
        and keyset = keyless_record, THEN conjunct2, THEN conjunct1, rule_format]
    by (simp add: world_simps)
  have c: "snd (fst (FindSecret ?P
       (NewClientsetSecretStore (failing_client (PlainError ''connection refused'')) ''ns'')
       ''a'' (world_of [] []))) =
       Some (Errorf_reading_keyset ''token-a'' (PlainError ''connection refused''))"
    using FindSecret_absent_Secret_not_found [where P = ?P
        and c = "NewClientsetSecretStore (failing_client (PlainError ''connection refused'')) ''ns''"
        and name = "''a''" and w = "world_of [] []", THEN conjunct2, THEN conjunct2]
    by (simp add: NewClientsetSecretStore_def failing_client_def NamePrefix_def)
  from a b c show ?thesis by simp
qed

text \<open>
  C5. When the List call succeeds, \<^verbatim>\<open>ListSecrets\<close> returns, in the order of the
  store, the names of exactly the records whose type is the plain-secret type, each
  with the prefix \<open>token-\<close> trimmed, and no error; trimming removes the prefix from a
  prefixed name.
\<close>

theorem ListSecrets_plain_secrets_only:
  assumes "Keysets_List (clientset c) (namespace c) w = (Inr items, w')"
  shows "ListSecrets c w =
           ((map (\<lambda>k. TrimPrefix (Name k) ''token-'')
               (filter (\<lambda>k. Type (Spec k) = SecretTypeSecret) items), None), w')
         \<and> TrimPrefix (''token-'' @ x) ''token-'' = x"
  using assms TrimPrefix_added [of "''token-''" x]
  by (simp add: ListSecrets_def ListSecrets_loop_eq NamePrefix_def)

text \<open>
  A namespace with two plain secrets, two keypairs (one under a prefixed name) and a
  plain secret of another namespace lists as \<open>a\<close> and \<open>b\<close>.
\<close>

theorem ListSecrets_plain_secrets_only_witness:
  "ListSecrets (world_store ''ns'') (world_of mixed_records []) =
     (([''a'', ''b''], None), world_of mixed_records [])"
proof -
  have l: "Keysets_List (clientset (world_store ''ns'')) (namespace (world_store ''ns''))
      (world_of mixed_records []) =
      (Inr (map snd (filter (\<lambda>r. fst r = ''ns'') mixed_records)), world_of mixed_records [])"
    by (simp add: world_simps)
  show ?thesis
    using ListSecrets_plain_secrets_only [OF l]
    by (simp add: mixed_records_def TrimPrefix_def HasPrefix_def)
qed

text \<open>
  C6, as amended. For every external name \<open>X\<close>, the one store call of
  \<^verbatim>\<open>createSecret\<close> is a Create of a record named \<open>token-X\<close>, and the one store call
  of \<^verbatim>\<open>loadSecret\<close> is a Get of \<open>token-X\<close>. On a store without other writers, after
  a successful create the record written is found under \<open>token-X\<close>, a load for \<open>X\<close>
  parses exactly that record, and \<^verbatim>\<open>ListSecrets\<close> reports the new record as \<open>X\<close>:
  the prefix added on the way in is stripped once, so an \<open>X\<close> that itself begins with
  \<open>token-\<close> is listed as it was given. The prefixed name does come out in one place:
  when the Get fails with an error other than not-found, the error of \<^verbatim>\<open>loadSecret\<close>
  names the keyset \<open>token-X\<close>.
\<close>

theorem prefix_round_trip:
  "(\<exists>k. snd (snd (createSecret (beside_log P) (logged c) (Some s) X (w, l))) =
          l @ [CallCreate (namespace c) k] \<and> Name k = ''token-'' @ X)
   \<and> snd (snd (loadSecret (beside_log P) (logged c) X (w, l))) =
       l @ [CallGet (namespace c) (''token-'' @ X)]
   \<and> (others v = [] \<and>
      createSecret (world_packages fp) (world_store ns) (Some s) X v = (Return (Inr k1), v1) \<longrightarrow>
        lookup (records v1) ns (''token-'' @ X) = Some k1 \<and>
        loadSecret (world_packages fp) (world_store ns) X v1 =
          (parseSecret (world_packages fp) k1, v1) \<and>
        fst (fst (ListSecrets (world_store ns) v1)) =
          fst (fst (ListSecrets (world_store ns) v)) @ [X])
   \<and> (Keysets_Get (clientset c) (namespace c) (''token-'' @ X) w = (Inl err, w') \<and>
      \<not> IsNotFound err \<longrightarrow>
        loadSecret P c X w = ((None, Some (Errorf_reading_keyset (''token-'' @ X) err)), w'))"
proof (intro conjI impI)
  show "\<exists>k. snd (snd (createSecret (beside_log P) (logged c) (Some s) X (w, l))) =
          l @ [CallCreate (namespace c) k] \<and> Name k = ''token-'' @ X"
    by (simp add: createSecret_logged spec_record_def split: prod.splits)
  show "snd (snd (loadSecret (beside_log P) (logged c) X (w, l))) =
       l @ [CallGet (namespace c) (''token-'' @ X)]"
    by (simp add: loadSecret_logged NamePrefix_def split: prod.splits)
next
  assume a: "others v = [] \<and>
      createSecret (world_packages fp) (world_store ns) (Some s) X v = (Return (Inr k1), v1)"
  then have idle: "others v = []" by simp
  from a have cr: "lookup (records v) ns (NamePrefix @ X) = None"
    "k1 = spec_record X (sint (clock v)) (Data s)"
    "v1 = v\<lparr>clock := clock v + 1, records := records v @ [(ns, k1)]\<rparr>"
    using createSecret_world_created [of v fp ns s X k1 v1] by simp_all
  have "lookup (records v @ [(ns, k1)]) ns (Name k1) = Some k1"
    using cr(1,2) by (intro lookup_append_new) (simp add: spec_record_Name)
  then show "lookup (records v1) ns (''token-'' @ X) = Some k1"
    using cr(2,3) by (simp add: spec_record_Name NamePrefix_def)
  show "loadSecret (world_packages fp) (world_store ns) X v1 =
          (parseSecret (world_packages fp) k1, v1)"
    unfolding cr(3) cr(2) using idle cr(1) by (rule loadSecret_world_written)
  show "fst (fst (ListSecrets (world_store ns) v1)) =
          fst (fst (ListSecrets (world_store ns) v)) @ [X]"
    unfolding cr(3) cr(2) using idle by (rule ListSecrets_world_written)
next
  assume "Keysets_Get (clientset c) (namespace c) (''token-'' @ X) w = (Inl err, w') \<and>
      \<not> IsNotFound err"
  then show "loadSecret P c X w =
      ((None, Some (Errorf_reading_keyset (''token-'' @ X) err)), w')"
    by (simp add: loadSecret_cases NamePrefix_def)
qed

text \<open>
  On the empty store: after creating \<open>a\<close> with payload \<open>[1]\<close>, the load for \<open>a\<close>
  gives \<open>[1]\<close> and the listing is \<open>a\<close>; after creating \<open>token-x\<close> the listing is
  \<open>token-x\<close>; at a store that cannot be reached the load for \<open>a\<close> fails with an
  error that names \<open>token-a\<close>.
\<close>

theorem prefix_round_trip_witness:
  "loadSecret (world_packages FindPrimary_first) (world_store ''ns'') ''a''
     \<lparr>records = [(''ns'', spec_record ''a'' 0 [1])], clock = 1, others = []\<rparr> =
     ((Some \<lparr>Data = [1]\<rparr>, None),
      \<lparr>records = [(''ns'', spec_record ''a'' 0 [1])], clock = 1, others = []\<rparr>)
   \<and> fst (fst (ListSecrets (world_store ''ns'')
        \<lparr>records = [(''ns'', spec_record ''a'' 0 [1])], clock = 1, others = []\<rparr>)) = [''a'']
   \<and> fst (fst (ListSecrets (world_store ''ns'')
        \<lparr>records = [(''ns'', spec_record ''token-x'' 0 [1])], clock = 1, others = []\<rparr>)) =
        [''token-x'']
   \<and> loadSecret (world_packages FindPrimary_first)
       (NewClientsetSecretStore (failing_client (PlainError ''connection refused'')) ''ns'')
       ''a'' (world_of [] []) =
       ((None, Some (Errorf_reading_keyset ''token-a'' (PlainError ''connection refused''))),
        world_of [] [])"
proof -
  let ?v1 = "\<lparr>records = [(''ns'', spec_record ''a'' 0 [1])], clock = 1, others = []\<rparr>"
  let ?vx = "\<lparr>records = [(''ns'', spec_record ''token-x'' 0 [1])], clock = 1, others = []\<rparr>"
  have cr: "others (world_of [] []) = [] \<and>
      createSecret (world_packages FindPrimary_first) (world_store ''ns'')
        (Some \<lparr>Data = [1]\<rparr>) ''a'' (world_of [] []) = (Return (Inr (spec_record ''a'' 0 [1])), ?v1)"
    by (simp add: createSecret_Some world_simps)
  have crx: "others (world_of [] []) = [] \<and>
      createSecret (world_packages FindPrimary_first) (world_store ''ns'')
        (Some \<lparr>Data = [1]\<rparr>) ''token-x'' (world_of [] []) =
        (Return (Inr (spec_record ''token-x'' 0 [1])), ?vx)"
    by (simp add: createSecret_Some world_simps)
  have l0: "fst (fst (ListSecrets (world_store ''ns'') (world_of [] []))) = []"
    by (simp add: ListSecrets_world world_of_def others_step_def)
  have p: "parseSecret (world_packages FindPrimary_first) (spec_record ''a'' 0 [1]) =
      (Some \<lparr>Data = [1]\<rparr>, None)"
    by (simp add: parseSecret_def world_simps)
  have g: "Keysets_Get
      (clientset (NewClientsetSecretStore (failing_client (PlainError ''connection refused'')) ''ns''))
      (namespace (NewClientsetSecretStore (failing_client (PlainError ''connection refused'')) ''ns''))
      (''token-'' @ ''a'') (world_of [] []) = (Inl (PlainError ''connection refused''), world_of [] [])
      \<and> \<not> IsNotFound (PlainError ''connection refused'')"
    by (simp add: NewClientsetSecretStore_def failing_client_def)
  have a: "loadSecret (world_packages FindPrimary_first) (world_store ''ns'') ''a'' ?v1 =
      ((Some \<lparr>Data = [1]\<rparr>, None), ?v1)
     \<and> fst (fst (ListSecrets (world_store ''ns'') ?v1)) = [''a'']"
    using prefix_round_trip [where fp = FindPrimary_first and ns = "''ns''" and X = "''a''"
        and s = "\<lparr>Data = [1]\<rparr>" and v = "world_of [] []" and ?k1.0 = "spec_record ''a'' 0 [1]"
        and ?v1.0 = ?v1, THEN conjunct2, THEN conjunct2, THEN conjunct1, rule_format, OF cr] l0 p
    by simp
  have b: "fst (fst (ListSecrets (world_store ''ns'') ?vx)) = [''token-x'']"
    using prefix_round_trip [where fp = FindPrimary_first and ns = "''ns''"
        and X = "''token-x''" and s = "\<lparr>Data = [1]\<rparr>" and v = "world_of [] []"
        and ?k1.0 = "spec_record ''token-x'' 0 [1]" and ?v1.0 = ?vx,
        THEN conjunct2, THEN conjunct2, THEN conjunct1, rule_format, OF crx] l0
    by simp
  have c: "loadSecret (world_packages FindPrimary_first)
       (NewClientsetSecretStore (failing_client (PlainError ''connection refused'')) ''ns'')
       ''a'' (world_of [] []) =
       ((None, Some (Errorf_reading_keyset ''token-a'' (PlainError ''connection refused''))),
        world_of [] [])"
    using prefix_round_trip [where P = "world_packages FindPrimary_first"
        and c = "NewClientsetSecretStore (failing_client (PlainError ''connection refused'')) ''ns''"
        and X = "''a''" and w = "world_of [] []" and w' = "world_of [] []"
        and err = "PlainError ''connection refused''",
        THEN conjunct2, THEN conjunct2, THEN conjunct2, rule_format, OF g]
    by simp
  from a b c show ?thesis by simp
qed

text \<open>
  C6 as first stated, with "the prefix never appears in any externally observed name",
  does not hold of the code. At a store that cannot be reached, \<^verbatim>\<open>FindSecret\<close> for
  \<open>a\<close> returns to its caller an error that names the keyset \<open>token-a\<close>; and after
  creating the secret \<open>token-x\<close>, \<^verbatim>\<open>ListSecrets\<close> returns the name \<open>token-x\<close>, which
  begins with the prefix.
\<close>

theorem prefix_observed_counterexample:
  "FindSecret (world_packages FindPrimary_first)
     (NewClientsetSecretStore (failing_client (PlainError ''connection refused'')) ''ns'')
     ''a'' (world_of [] []) =
     ((None, Some (Errorf_reading_keyset ''token-a'' (PlainError ''connection refused''))),
      world_of [] [])
   \<and> fst (fst (ListSecrets (world_store ''ns'')
        (snd (createSecret (world_packages FindPrimary_first) (world_store ''ns'')
               (Some \<lparr>Data = [1]\<rparr>) ''token-x'' (world_of [] []))))) = [''token-x'']
   \<and> HasPrefix ''token-x'' NamePrefix"
proof (intro conjI)
  show "FindSecret (world_packages FindPrimary_first)
     (NewClientsetSecretStore (failing_client (PlainError ''connection refused'')) ''ns'')
     ''a'' (world_of [] []) =
     ((None, Some (Errorf_reading_keyset ''token-a'' (PlainError ''connection refused''))),
      world_of [] [])"
    by (simp add: FindSecret_eq_loadSecret loadSecret_cases NewClientsetSecretStore_def
        failing_client_def NamePrefix_def)
  have cr: "createSecret (world_packages FindPrimary_first) (world_store ''ns'')
      (Some \<lparr>Data = [1]\<rparr>) ''token-x'' (world_of [] []) =
      (Return (Inr (spec_record ''token-x'' 0 [1])),
       \<lparr>records = [(''ns'', spec_record ''token-x'' 0 [1])], clock = 1, others = []\<rparr>)"
    by (simp add: createSecret_Some world_simps)
  show "fst (fst (ListSecrets (world_store ''ns'')
        (snd (createSecret (world_packages FindPrimary_first) (world_store ''ns'')
               (Some \<lparr>Data = [1]\<rparr>) ''token-x'' (world_of [] []))))) = [''token-x'']"
    by (simp add: cr ListSecrets_world others_step_def spec_record_def NamePrefix_def
        TrimPrefix_def HasPrefix_def)
  show "HasPrefix ''token-x'' NamePrefix"
    by (simp add: HasPrefix_def NamePrefix_def)
qed

text \<open>
  C7. \<^verbatim>\<open>DeleteSecret\<close> hands the item's name, without the prefix, and the
  keypair type to the item-deletion primitive. At a store that holds the secret \<open>a\<close>
  with the single entry \<open>7\<close>, deleting the item (\<open>a\<close>, \<open>7\<close>) therefore addresses the
  record \<open>a\<close>, which does not exist, and a following \<^verbatim>\<open>FindSecret\<close> for \<open>a\<close>, which
  reads \<open>token-a\<close>, still returns the secret: the claimed effect of the deletion does
  not take place. By \<open>DeleteSecret_world_other_record\<close> this is so for every item on a
  store without other writers.
\<close>

theorem DeleteSecret_leaves_secret:
  "DeleteSecret (logged (world_store ''ns'')) (Some \<lparr>item_Name = ''a'', item_Id = ''7''\<rparr>)
     (world_of [(''ns'', rival_record)] [], []) =
     (Return (Some (StatusError StatusReasonNotFound)),
      (world_of [(''ns'', rival_record)] [],
       [CallDeleteItem ''ns'' ''a'' SecretTypeKeypair ''7'']))
   \<and> FindSecret (beside_log (world_packages FindPrimary_first)) (logged (world_store ''ns''))
     ''a'' (world_of [(''ns'', rival_record)] [], []) =
     ((Some \<lparr>Data = [2]\<rparr>, None),
      (world_of [(''ns'', rival_record)] [], [CallGet ''ns'' ''token-a'']))"
proof
  show "DeleteSecret (logged (world_store ''ns'')) (Some \<lparr>item_Name = ''a'', item_Id = ''7''\<rparr>)
     (world_of [(''ns'', rival_record)] [], []) =
     (Return (Some (StatusError StatusReasonNotFound)),
      (world_of [(''ns'', rival_record)] [],
       [CallDeleteItem ''ns'' ''a'' SecretTypeKeypair ''7'']))"
    by (simp add: DeleteSecret_def DeleteKeysetItem_def logged_def logged_client_def world_simps)
  have "loadSecret (world_packages FindPrimary_first) (world_store ''ns'') ''a''
      (world_of [(''ns'', rival_record)] []) =
      ((Some \<lparr>Data = [2]\<rparr>, None), world_of [(''ns'', rival_record)] [])"
    by (simp add: loadSecret_cases world_simps)
  then show "FindSecret (beside_log (world_packages FindPrimary_first))
     (logged (world_store ''ns'')) ''a'' (world_of [(''ns'', rival_record)] [], []) =
     ((Some \<lparr>Data = [2]\<rparr>, None),
      (world_of [(''ns'', rival_record)] [], [CallGet ''ns'' ''token-a'']))"
    by (simp add: FindSecret_eq_loadSecret loadSecret_logged world_store_def
        NewClientsetSecretStore_def NamePrefix_def)
qed

text \<open>
  C8. For every payload and name, \<^verbatim>\<open>createSecret\<close> reads the clock, turns the
  timestamp into a serial, and submits through the Create call of the store exactly
  the record with the prefixed name, the plain-secret type and the single entry whose
  ID is the decimal form of the serial and whose material is the payload; this Create
  is its only store call.
\<close>

theorem createSecret_builds_record:
  "createSecret P c (Some s) name w =
     (case time_Now_UnixNano P w of (t, w1) \<Rightarrow>
      case pki_BuildPKISerial P t w1 of (serial, w2) \<Rightarrow>
      case Keysets_Create (clientset c) (namespace c)
             \<lparr>Name = ''token-'' @ name,
              Spec = \<lparr>Type = SecretTypeSecret,
                      Keys = [\<lparr>Id = big_Int_String serial, PrivateMaterial = Data s\<rparr>]\<rparr>\<rparr> w2 of
        (r, w3) \<Rightarrow> (Return r, w3))
   \<and> snd (snd (createSecret (beside_log P) (logged c) (Some s) name (w, l))) =
       l @ [CallCreate (namespace c)
             \<lparr>Name = ''token-'' @ name,
              Spec = \<lparr>Type = SecretTypeSecret,
                      Keys = [\<lparr>Id = big_Int_String
                                (fst (pki_BuildPKISerial P (fst (time_Now_UnixNano P w))
                                   (snd (time_Now_UnixNano P w)))),
                              PrivateMaterial = Data s\<rparr>]\<rparr>\<rparr>]"
proof
  show "createSecret P c (Some s) name w =
     (case time_Now_UnixNano P w of (t, w1) \<Rightarrow>
      case pki_BuildPKISerial P t w1 of (serial, w2) \<Rightarrow>
      case Keysets_Create (clientset c) (namespace c)
             \<lparr>Name = ''token-'' @ name,
              Spec = \<lparr>Type = SecretTypeSecret,
                      Keys = [\<lparr>Id = big_Int_String serial, PrivateMaterial = Data s\<rparr>]\<rparr>\<rparr> w2 of
        (r, w3) \<Rightarrow> (Return r, w3))"
    by (simp add: createSecret_Some spec_record_def)
  show "snd (snd (createSecret (beside_log P) (logged c) (Some s) name (w, l))) =
       l @ [CallCreate (namespace c)
             \<lparr>Name = ''token-'' @ name,
              Spec = \<lparr>Type = SecretTypeSecret,
                      Keys = [\<lparr>Id = big_Int_String
                                (fst (pki_BuildPKISerial P (fst (time_Now_UnixNano P w))
                                   (snd (time_Now_UnixNano P w)))),
                              PrivateMaterial = Data s\<rparr>]\<rparr>\<rparr>]"
    by (simp add: createSecret_logged spec_record_def split: prod.splits)
qed

text \<open>
  C9. There are runs in which \<^verbatim>\<open>GetOrCreateSecret\<close> returns no secret, created=true
  and no error: the create succeeds, and before the re-read another writer deletes the
  record (first run) or replaces it by a record without entries (second run).
\<close>

theorem GetOrCreateSecret_nil_created:
  "GetOrCreateSecret (world_packages FindPrimary_first) (world_store ''ns'') ''a''
     (Some \<lparr>Data = [1]\<rparr>) (world_of [] [[], [], [OtherDelete ''ns'' ''token-a'']]) =
     (Return (None, True, None), \<lparr>records = [], clock = 1, others = []\<rparr>)
   \<and> GetOrCreateSecret (world_packages FindPrimary_first) (world_store ''ns'') ''a''
     (Some \<lparr>Data = [1]\<rparr>) (world_of [] [[], [], [OtherUpdate ''ns'' keyless_record]]) =
     (Return (None, True, None),
      \<lparr>records = [(''ns'', keyless_record)], clock = 1, others = []\<rparr>)"
  by (simp add: run_simps world_simps)

text \<open>
  C10. \<^verbatim>\<open>Secret\<close> returns either a secret and no error, or no secret and an
  error; never neither.
\<close>

theorem Secret_secret_or_error:
  "(\<exists>s w'. Secret P c name w = ((Some s, None), w')) \<or>
   (\<exists>err w'. Secret P c name w = ((None, Some err), w'))"
  by (auto simp: Secret_def split: prod.splits option.splits)

end
